theory Spec2Isabelle
  imports Complex_Main "HOL-Library.AList"
begin

section \<open>Data model (schemas.py)\<close>

text \<open>
  Python \<open>int\<close> is \<open>int\<close>, \<open>Optional[T]\<close> is \<open>T option\<close>, and \<open>str\<close> is \<open>string\<close>, a
  character standing for a code point below 256. A finite \<open>float\<close> is the rational
  number it denotes; arithmetic on floats rounds to the nearest double (\<open>fl\<close> below).
\<close>

datatype category = vehicle | electronics

datatype condition = excellent | good | fair | poor

record Borrower =
  name :: string
  mobile :: string
  city :: string

text \<open>The fields \<open>name\<close> and \<open>mobile\<close> of \<open>Lender\<close> carry a prefix, as \<open>Borrower\<close> has them too.\<close>

record Lender =
  lender_name :: string
  lender_mobile :: "string option"
  company :: "string option"

record MediaItem =
  kind :: string
  url :: string
  filename :: string
  content_type :: "string option"
  size_bytes :: "int option"

text \<open>The fields \<open>make\<close> and \<open>notes\<close> of \<open>LoanAsset\<close> are \<open>asset_make\<close> and \<open>asset_notes\<close> here (both names are reserved).\<close>

record LoanAsset =
  category :: category
  subtype :: string
  asset_make :: "string option"
  model :: "string option"
  year :: "int option"
  condition :: "condition option"
  asset_notes :: "string option"

record LoanEstimation =
  estimated_value :: rat
  suggested_loan :: rat
  ltv :: rat

record LoanRequest =
  borrower :: Borrower
  asset :: LoanAsset
  estimation :: LoanEstimation
  status :: string
  offer_amount :: "rat option"
  lender_note :: "string option"
  media :: "MediaItem list"
  source :: string
  lender_id :: "string option"

datatype error = KeyError | OverflowError | InvalidId | HTTPException nat string

section \<open>Floating point\<close>

text \<open>\<open>round(x, 0)\<close> on a float: to the nearest whole number, a tie to the even one.\<close>

definition py_round :: "rat \<Rightarrow> rat" where
  "py_round x =
     (let f = \<lfloor>x\<rfloor>; d = x - of_int f
      in of_int (if d < 1 / 2 then f else if 1 / 2 < d then f + 1
                 else if even f then f else f + 1))"

text \<open>
  The binary exponent of a positive number: the greatest \<open>e\<close> from \<open>lo\<close> up to
  \<open>lo + 2 ^ n - 1\<close> with \<open>2 powi e \<le> x\<close>, found by bisection.
\<close>

fun find_exp :: "nat \<Rightarrow> rat \<Rightarrow> int \<Rightarrow> int" where
  "find_exp 0 x lo = lo"
| "find_exp (Suc n) x lo =
     (if 2 powi (lo + 2 ^ n) \<le> x then find_exp n x (lo + 2 ^ n) else find_exp n x lo)"

definition expo :: "rat \<Rightarrow> int" where
  "expo x = find_exp 12 x (- 2048)"

text \<open>
  Rounding to the nearest IEEE 754 double, a tie to the even significand: 53 significant
  bits, and the fixed spacing \<open>2 powi (- 1074)\<close> in the subnormal range. A double is below
  \<open>2 ^ 1024\<close>; a result of \<open>2 ^ 1024\<close> or more stands for an overflow, which the one place
  where it can happen (\<open>float_of_int\<close>) tests.
\<close>

definition fl :: "rat \<Rightarrow> rat" where
  "fl x =
     (if x = 0 then 0
      else (let q = 2 powi (max (expo \<bar>x\<bar> - 52) (- 1074))
            in sgn x * (q * py_round (\<bar>x\<bar> / q))))"

text \<open>An \<open>int\<close> operand of a float operation: \<open>OverflowError\<close> when it rounds beyond the doubles.\<close>

definition float_of_int :: "int \<Rightarrow> error + rat" where
  "float_of_int n =
     (let x = fl (of_int n) in if 2 ^ 1024 \<le> \<bar>x\<bar> then Inl OverflowError else Inr x)"

text \<open>
  \<open>x ** n\<close> for a float \<open>x\<close> and an int \<open>n\<close>: the exponent is converted to a float, the
  exponent zero gives \<open>1.0\<close>, and every other case is the \<open>pow\<close> of the C library, whose
  last bit IEEE 754 does not fix. That function is the parameter \<open>pw\<close>; \<open>pow_nearest\<close>
  is the correctly rounded one.
\<close>

definition float_pow :: "(rat \<Rightarrow> rat \<Rightarrow> rat) \<Rightarrow> rat \<Rightarrow> int \<Rightarrow> error + rat" where
  "float_pow pw x n =
     (case float_of_int n of
        Inl e \<Rightarrow> Inl e
      | Inr w \<Rightarrow> Inr (if w = 0 then 1 else pw x w))"

definition pow_nearest :: "rat \<Rightarrow> rat \<Rightarrow> rat" where
  "pow_nearest x w = fl (x powi \<lfloor>w\<rfloor>)"

section \<open>Valuation (main.py, estimate_value)\<close>

text \<open>
  \<open>str.lower\<close>: the capital letters A to Z and, above the ASCII range, the capital letters
  from code point 192 to 222 (but the multiplication sign 215) move up by 32.
\<close>

definition lower_char :: "char \<Rightarrow> char" where
  "lower_char c =
     (let n = (of_char c :: nat)
      in if (65 \<le> n \<and> n \<le> 90) \<or> (192 \<le> n \<and> n \<le> 222 \<and> n \<noteq> 215)
         then char_of (n + 32) else c)"

definition lower :: "string \<Rightarrow> string" where
  "lower s = map lower_char s"

definition base_map :: "(category \<times> (string \<times> int) list) list" where
  "base_map =
     [(vehicle, [(''2-wheeler'', 80000), (''3-wheeler'', 200000), (''4-wheeler'', 600000)]),
      (electronics, [(''laptop'', 60000), (''mobile'', 40000), (''other'', 20000)])]"

text \<open>A subscript \<open>d[k]\<close> on a dict raises \<open>KeyError\<close> on a missing key.\<close>

definition getitem :: "('k \<times> 'v) list \<Rightarrow> 'k \<Rightarrow> error + 'v" where
  "getitem d k = (case map_of d k of None \<Rightarrow> Inl KeyError | Some v \<Rightarrow> Inr v)"

definition normalize_subtype :: "category \<Rightarrow> string \<Rightarrow> string" where
  "normalize_subtype c s =
     (let subtype_key = lower s
      in if c = vehicle
         then (if subtype_key \<notin> set [''2-wheeler'', ''3-wheeler'', ''4-wheeler'']
               then ''2-wheeler'' else subtype_key)
         else (if subtype_key \<notin> set [''laptop'', ''mobile'', ''other'']
               then ''other'' else subtype_key))"

text \<open>
  \<open>asset.year or 2020\<close>: an absent year and the year \<open>0\<close> are both falsy. The year is an
  \<open>int\<close> by the type of \<open>LoanAsset\<close>, so the subtraction in the \<open>try\<close> block cannot raise
  and the \<open>except\<close> branch (\<open>age = 4\<close>) is never taken. The current year, read from the
  clock, is a parameter.
\<close>

definition year_or_default :: "int option \<Rightarrow> int" where
  "year_or_default y = (case y of None \<Rightarrow> 2020 | Some v \<Rightarrow> if v = 0 then 2020 else v)"

definition asset_age :: "int \<Rightarrow> LoanAsset \<Rightarrow> int" where
  "asset_age now_year a = max 0 (now_year - year_or_default (year a))"

text \<open>The exponent of the depreciation curve: \<open>max(0, age - 1)\<close> or \<open>max(0, age)\<close>.\<close>

definition pow_exponent :: "category \<Rightarrow> int \<Rightarrow> int" where
  "pow_exponent c age = (if c = vehicle then max 0 (age - 1) else max 0 age)"

text \<open>
  \<open>base * 0.85 * (0.9 ** k)\<close> and \<open>base * 0.7 * (0.75 ** k)\<close>, outside the \<open>try\<close> block:
  the product on the left is formed first, then the power, then their product.
\<close>

definition depreciated ::
  "(rat \<Rightarrow> rat \<Rightarrow> rat) \<Rightarrow> category \<Rightarrow> int \<Rightarrow> int \<Rightarrow> error + rat" where
  "depreciated pw c base age =
     (case float_of_int base of
        Inl e \<Rightarrow> Inl e
      | Inr b \<Rightarrow>
         (let first = fl (b * (if c = vehicle then fl (85 / 100) else fl (7 / 10)))
          in case float_pow pw (if c = vehicle then fl (9 / 10) else fl (75 / 100))
                    (pow_exponent c age) of
               Inl e \<Rightarrow> Inl e
             | Inr p \<Rightarrow> Inr (fl (first * p))))"

definition condition_map :: "(condition \<times> rat) list" where
  "condition_map =
     [(excellent, fl (105 / 100)), (good, 1), (fair, fl (85 / 100)), (poor, fl (7 / 10))]"

definition condition_factor :: "condition option \<Rightarrow> rat" where
  "condition_factor c =
     (case map_of condition_map (case c of None \<Rightarrow> good | Some k \<Rightarrow> k) of
        None \<Rightarrow> 1 | Some f \<Rightarrow> f)"

definition ltv_policy :: "category \<Rightarrow> rat" where
  "ltv_policy c = (if c = vehicle then fl (6 / 10) else fl (1 / 2))"

text \<open>The local \<open>estimated\<close>: the floored value before any rounding to a whole number.\<close>

definition estimated_raw :: "rat \<Rightarrow> condition option \<Rightarrow> rat" where
  "estimated_raw v c = max 5000 (fl (v * condition_factor c))"

definition estimate_value ::
  "(rat \<Rightarrow> rat \<Rightarrow> rat) \<Rightarrow> int \<Rightarrow> LoanAsset \<Rightarrow> error + LoanEstimation" where
  "estimate_value pw now_year a =
     (case getitem base_map (category a) of
        Inl e \<Rightarrow> Inl e
      | Inr row \<Rightarrow>
         (case getitem row (normalize_subtype (category a) (subtype a)) of
            Inl e \<Rightarrow> Inl e
          | Inr base \<Rightarrow>
             (case depreciated pw (category a) base (asset_age now_year a) of
                Inl e \<Rightarrow> Inl e
              | Inr v \<Rightarrow>
                 (let estimated = estimated_raw v (condition a);
                      l = ltv_policy (category a);
                      suggested = py_round (fl (estimated * l))
                  in Inr \<lparr>estimated_value = py_round estimated,
                          suggested_loan = suggested, ltv = l\<rparr>))))"

text \<open>The two-level table read as a function of the category and the normalized key.\<close>

definition base_value :: "category \<Rightarrow> string \<Rightarrow> int" where
  "base_value c k =
     (if c = vehicle
      then (if k = ''3-wheeler'' then 200000 else if k = ''4-wheeler'' then 600000 else 80000)
      else (if k = ''laptop'' then 60000 else if k = ''mobile'' then 40000 else 20000))"

definition tablet :: LoanAsset where
  "tablet = \<lparr>category = electronics, subtype = ''tablet'', asset_make = None, model = None,
     year = None, condition = Some good, asset_notes = None\<rparr>"

definition scooter :: LoanAsset where
  "scooter = \<lparr>category = vehicle, subtype = ''2-Wheeler'', asset_make = None, model = None,
     year = Some 2020, condition = Some excellent, asset_notes = None\<rparr>"

section \<open>Documents and the store\<close>

text \<open>
  A stored document is a Python dict: a list of key and value pairs with distinct keys.
  An \<open>ObjectId\<close> is its twelve bytes, a datetime is the text \<open>isoformat\<close> gives for it,
  and \<open>VRepr v\<close> is the text \<open>str(v)\<close> of a value that is neither an \<open>ObjectId\<close> nor a
  string, which \<open>serialize_doc\<close> never meets on a document found by its identity.
\<close>

datatype val =
    VNull
  | VStr string
  | VInt int
  | VNum rat
  | VObj "(string \<times> val) list"
  | VList "val list"
  | VId "nat list"
  | VDate string
  | VRepr val

type_synonym doc = "(string \<times> val) list"

definition opt_str :: "string option \<Rightarrow> val" where
  "opt_str s = (case s of None \<Rightarrow> VNull | Some v \<Rightarrow> VStr v)"

definition opt_int :: "int option \<Rightarrow> val" where
  "opt_int s = (case s of None \<Rightarrow> VNull | Some v \<Rightarrow> VInt v)"

definition opt_num :: "rat option \<Rightarrow> val" where
  "opt_num s = (case s of None \<Rightarrow> VNull | Some v \<Rightarrow> VNum v)"

definition category_str :: "category \<Rightarrow> string" where
  "category_str c = (case c of vehicle \<Rightarrow> ''vehicle'' | electronics \<Rightarrow> ''electronics'')"

definition condition_str :: "condition \<Rightarrow> string" where
  "condition_str c =
     (case c of excellent \<Rightarrow> ''excellent'' | good \<Rightarrow> ''good''
      | fair \<Rightarrow> ''fair'' | poor \<Rightarrow> ''poor'')"

text \<open>\<open>model_dump\<close> writes every field, nested objects included, an absent one as \<open>VNull\<close>.\<close>

definition dump_Borrower :: "Borrower \<Rightarrow> doc" where
  "dump_Borrower b =
     [(''name'', VStr (name b)), (''mobile'', VStr (mobile b)), (''city'', VStr (city b))]"

definition dump_MediaItem :: "MediaItem \<Rightarrow> doc" where
  "dump_MediaItem m =
     [(''kind'', VStr (kind m)), (''url'', VStr (url m)), (''filename'', VStr (filename m)),
      (''content_type'', opt_str (content_type m)), (''size_bytes'', opt_int (size_bytes m))]"

definition dump_LoanAsset :: "LoanAsset \<Rightarrow> doc" where
  "dump_LoanAsset a =
     [(''category'', VStr (category_str (category a))), (''subtype'', VStr (subtype a)),
      (''make'', opt_str (asset_make a)), (''model'', opt_str (model a)),
      (''year'', opt_int (year a)),
      (''condition'', opt_str (map_option condition_str (condition a))),
      (''notes'', opt_str (asset_notes a))]"

definition dump_LoanEstimation :: "LoanEstimation \<Rightarrow> doc" where
  "dump_LoanEstimation e =
     [(''estimated_value'', VNum (estimated_value e)),
      (''suggested_loan'', VNum (suggested_loan e)), (''ltv'', VNum (ltv e))]"

definition model_dump :: "LoanRequest \<Rightarrow> doc" where
  "model_dump r =
     [(''borrower'', VObj (dump_Borrower (borrower r))),
      (''asset'', VObj (dump_LoanAsset (asset r))),
      (''estimation'', VObj (dump_LoanEstimation (estimation r))),
      (''status'', VStr (status r)),
      (''offer_amount'', opt_num (offer_amount r)),
      (''lender_note'', opt_str (lender_note r)),
      (''media'', VList (map (\<lambda>m. VObj (dump_MediaItem m)) (media r))),
      (''source'', VStr (source r)),
      (''lender_id'', opt_str (lender_id r))]"

text \<open>
  \<open>ObjectId(s)\<close> of the bson library: \<open>s\<close> must have 24 characters and \<open>bytes.fromhex\<close>
  must accept it (pairs of hexadecimal digits, white space between pairs skipped);
  otherwise \<open>InvalidId\<close> is raised. \<open>str\<close> of an \<open>ObjectId\<close> is its bytes in lower-case
  hexadecimal digits.
\<close>

definition is_space :: "char \<Rightarrow> bool" where
  "is_space c = ((of_char c :: nat) \<in> {9, 10, 11, 12, 13, 32})"

definition hex_digit :: "char \<Rightarrow> nat option" where
  "hex_digit c =
     (let n = (of_char c :: nat)
      in if 48 \<le> n \<and> n \<le> 57 then Some (n - 48)
         else if 97 \<le> n \<and> n \<le> 102 then Some (n - 87)
         else if 65 \<le> n \<and> n \<le> 70 then Some (n - 55)
         else None)"

fun fromhex :: "string \<Rightarrow> nat list option" where
  "fromhex [] = Some []"
| "fromhex [c] = (if is_space c then Some [] else None)"
| "fromhex (c # d # cs) =
     (if is_space c then fromhex (d # cs)
      else (case hex_digit c of
              None \<Rightarrow> None
            | Some h \<Rightarrow>
               (case hex_digit d of
                  None \<Rightarrow> None
                | Some l \<Rightarrow> map_option (\<lambda>bs. (16 * h + l) # bs) (fromhex cs))))"

definition ObjectId :: "string \<Rightarrow> error + nat list" where
  "ObjectId s =
     (if length s = 24
      then (case fromhex s of None \<Rightarrow> Inl InvalidId | Some b \<Rightarrow> Inr b)
      else Inl InvalidId)"

definition hex_of :: "nat list \<Rightarrow> string" where
  "hex_of bs =
     concat (map (\<lambda>b. [''0123456789abcdef'' ! (b div 16), ''0123456789abcdef'' ! (b mod 16)]) bs)"

text \<open>
  The collection \<open>loanrequest\<close>: the documents in the order of their insertion.
  \<open>find_one({"_id": oid})\<close> is the first document whose \<open>_id\<close> is \<open>oid\<close>, and
  \<open>update_one({"_id": oid}, {"$set": upd})\<close> writes each field of \<open>upd\<close> over that
  document's.
\<close>

type_synonym store = "doc list"

definition has_id :: "nat list \<Rightarrow> doc \<Rightarrow> bool" where
  "has_id oid d = (map_of d ''_id'' = Some (VId oid))"

definition find_one :: "store \<Rightarrow> nat list \<Rightarrow> doc option" where
  "find_one db oid = find (has_id oid) db"

definition set_fields :: "doc \<Rightarrow> doc \<Rightarrow> doc" where
  "set_fields upd d = foldl (\<lambda>acc kv. AList.update (fst kv) (snd kv) acc) d upd"

fun update_first :: "(doc \<Rightarrow> bool) \<Rightarrow> (doc \<Rightarrow> doc) \<Rightarrow> doc list \<Rightarrow> doc list" where
  "update_first P f [] = []"
| "update_first P f (d # ds) = (if P d then f d # ds else d # update_first P f ds)"

definition update_one :: "store \<Rightarrow> nat list \<Rightarrow> doc \<Rightarrow> store" where
  "update_one db oid upd = update_first (has_id oid) (set_fields upd) db"

text \<open>
  Modelled from the spec: \<open>create_document\<close> of the module \<open>database\<close>, which is not among
  the sources. It is the store's \<open>Insert(collection, record) -> identity\<close>: the record is
  stored under an identity that the store assigns, a parameter here, and the identity is
  returned as text.
\<close>

definition create_document :: "store \<Rightarrow> nat list \<Rightarrow> doc \<Rightarrow> string \<times> store" where
  "create_document db new_id d =
     (hex_of new_id, db @ [AList.update ''_id'' (VId new_id) d])"

text \<open>
  \<open>serialize_doc\<close>: a missing or empty document gives \<open>None\<close>; otherwise \<open>_id\<close> is taken
  out and its text stored under \<open>id\<close>, and every datetime among the values becomes its
  \<open>isoformat\<close> text.
\<close>

definition py_str :: "val \<Rightarrow> val" where
  "py_str v = (case v of VId b \<Rightarrow> VStr (hex_of b) | VStr s \<Rightarrow> VStr s | _ \<Rightarrow> VRepr v)"

definition isoformat :: "val \<Rightarrow> val" where
  "isoformat v = (case v of VDate s \<Rightarrow> VStr s | _ \<Rightarrow> v)"

definition serialize_doc :: "doc option \<Rightarrow> doc option" where
  "serialize_doc doc =
     (case doc of
        None \<Rightarrow> None
      | Some d0 \<Rightarrow>
         if d0 = [] then None
         else (let d = (case map_of d0 ''_id'' of
                          None \<Rightarrow> d0
                        | Some v \<Rightarrow> AList.update ''id'' (py_str v) (AList.delete ''_id'' d0))
               in Some (map (\<lambda>kv. (fst kv, isoformat (snd kv))) d)))"

section \<open>Loan requests (main.py)\<close>

record CreateLoanInput =
  borrower_in :: Borrower
  asset_in :: LoanAsset
  media_in :: "MediaItem list"

record BYOBInput =
  lender_by :: Lender
  borrower_by :: Borrower
  asset_by :: LoanAsset

text \<open>
  \<open>ModifyOfferInput\<close> declares \<open>offer_amount: float\<close>; the option type keeps the test
  \<open>offer_amount is None\<close> of \<open>update_status\<close> in the model. \<open>action\<close> is a string, as the
  code compares it with the three literals.
\<close>

record ModifyOfferInput =
  offer_amount_in :: "rat option"
  lender_note_in :: "string option"

record StatusUpdateInput =
  action :: string
  data :: "ModifyOfferInput option"

text \<open>The response of the two creation endpoints: \<open>id\<close>, \<open>status\<close> and \<open>estimation\<close>.\<close>

record created =
  created_id :: string
  created_status :: string
  created_estimation :: doc

definition create_loan_request ::
  "(rat \<Rightarrow> rat \<Rightarrow> rat) \<Rightarrow> int \<Rightarrow> store \<Rightarrow> nat list \<Rightarrow> CreateLoanInput
     \<Rightarrow> error + (store \<times> created)" where
  "create_loan_request pw now_year db new_id payload =
     (case estimate_value pw now_year (asset_in payload) of
        Inl e \<Rightarrow> Inl e
      | Inr est \<Rightarrow>
         (let req = \<lparr>borrower = borrower_in payload, asset = asset_in payload,
                     estimation = est, status = ''Pending'', offer_amount = None,
                     lender_note = None, media = media_in payload, source = ''platform'',
                     lender_id = None\<rparr>;
              ins = create_document db new_id (model_dump req)
          in Inr (snd ins, \<lparr>created_id = fst ins, created_status = status req,
                            created_estimation = dump_LoanEstimation est\<rparr>)))"

text \<open>
  \<open>a or b\<close> on strings: \<open>None\<close> and the empty string are falsy.
  \<open>lender_ident\<close> is \<open>payload.lender.company or payload.lender.name or "lender"\<close>.
\<close>

definition truthy :: "string option \<Rightarrow> bool" where
  "truthy s = (case s of None \<Rightarrow> False | Some v \<Rightarrow> v \<noteq> [])"

definition lender_ident :: "Lender \<Rightarrow> string" where
  "lender_ident l =
     (case company l of
        Some c \<Rightarrow> if c \<noteq> [] then c
                  else if lender_name l \<noteq> [] then lender_name l else ''lender''
      | None \<Rightarrow> if lender_name l \<noteq> [] then lender_name l else ''lender'')"

definition create_byob ::
  "(rat \<Rightarrow> rat \<Rightarrow> rat) \<Rightarrow> int \<Rightarrow> store \<Rightarrow> nat list \<Rightarrow> BYOBInput
     \<Rightarrow> error + (store \<times> created)" where
  "create_byob pw now_year db new_id payload =
     (case estimate_value pw now_year (asset_by payload) of
        Inl e \<Rightarrow> Inl e
      | Inr est \<Rightarrow>
         (let req = \<lparr>borrower = borrower_by payload, asset = asset_by payload,
                     estimation = est, status = ''Pending'', offer_amount = None,
                     lender_note = None, media = [], source = ''byob'',
                     lender_id = Some (lender_ident (lender_by payload))\<rparr>;
              ins = create_document db new_id (model_dump req)
          in Inr (snd ins, \<lparr>created_id = fst ins, created_status = status req,
                            created_estimation = dump_LoanEstimation est\<rparr>)))"

text \<open>The patch of \<open>update_status\<close>: the dict \<open>update\<close> as it is before \<open>if not update\<close>.\<close>

definition compute_update :: "StatusUpdateInput \<Rightarrow> error + doc" where
  "compute_update payload =
     (if action payload = ''Approve'' then Inr [(''status'', VStr ''Approved'')]
      else if action payload = ''Reject'' then Inr [(''status'', VStr ''Rejected'')]
      else if action payload = ''Modify'' then
        (case data payload of
           None \<Rightarrow> Inl (HTTPException 400 ''offer_amount required for Modify'')
         | Some d \<Rightarrow>
            (case offer_amount_in d of
               None \<Rightarrow> Inl (HTTPException 400 ''offer_amount required for Modify'')
             | Some amount \<Rightarrow>
                Inr ([(''status'', VStr ''Modified''), (''offer_amount'', VNum amount)]
                     @ (if truthy (lender_note_in d)
                        then [(''lender_note'', opt_str (lender_note_in d))] else []))))
      else Inr [])"

definition update_status ::
  "store \<Rightarrow> string \<Rightarrow> StatusUpdateInput \<Rightarrow> error + (store \<times> doc option)" where
  "update_status db req_id payload =
     (case ObjectId req_id of
        Inl e \<Rightarrow> Inl e
      | Inr oid \<Rightarrow>
         (case find_one db oid of
            None \<Rightarrow> Inl (HTTPException 404 ''Request not found'')
          | Some d \<Rightarrow>
             if d = [] then Inl (HTTPException 404 ''Request not found'')
             else (case compute_update payload of
                     Inl e \<Rightarrow> Inl e
                   | Inr update \<Rightarrow>
                      if update = [] then Inl (HTTPException 400 ''No update provided'')
                      else (let db' = update_one db oid update
                            in Inr (db', serialize_doc (find_one db' oid))))))"

section \<open>Reading a stored request\<close>

text \<open>A field of the request stored under an identity, and whether a field is set.\<close>

definition field :: "store \<Rightarrow> nat list \<Rightarrow> string \<Rightarrow> val option" where
  "field db oid f = (case find_one db oid of None \<Rightarrow> None | Some d \<Rightarrow> map_of d f)"

definition is_set :: "store \<Rightarrow> nat list \<Rightarrow> string \<Rightarrow> bool" where
  "is_set db oid f = (case field db oid f of None \<Rightarrow> False | Some v \<Rightarrow> v \<noteq> VNull)"

text \<open>A sequence of status updates on one request; a failed update changes nothing.\<close>

fun apply_actions :: "store \<Rightarrow> string \<Rightarrow> StatusUpdateInput list \<Rightarrow> store" where
  "apply_actions db req_id [] = db"
| "apply_actions db req_id (p # ps) =
     (case update_status db req_id p of
        Inl e \<Rightarrow> apply_actions db req_id ps
      | Inr r \<Rightarrow> apply_actions (fst r) req_id ps)"

text \<open>
  A payload that takes the Modify transition (it carries an offer), and one that also
  carries a note that is not empty.
\<close>

definition modifies :: "StatusUpdateInput \<Rightarrow> bool" where
  "modifies p =
     (action p = ''Modify'' \<and>
      (case data p of None \<Rightarrow> False | Some m \<Rightarrow> offer_amount_in m \<noteq> None))"

definition modifies_note :: "StatusUpdateInput \<Rightarrow> bool" where
  "modifies_note p =
     (action p = ''Modify'' \<and>
      (case data p of None \<Rightarrow> False
       | Some m \<Rightarrow> offer_amount_in m \<noteq> None \<and> truthy (lender_note_in m)))"

text \<open>Sample data: an identity, its text, a stored request and three payloads.\<close>

definition oid1 :: "nat list" where
  "oid1 = [101, 67, 33, 15, 101, 67, 33, 15, 101, 67, 33, 15]"

definition rid1 :: string where
  "rid1 = ''6543210f6543210f6543210f''"

definition pending_doc :: doc where
  "pending_doc = [(''_id'', VId oid1), (''status'', VStr ''Pending''), (''offer_amount'', VNull),
     (''lender_note'', VStr ''call first''), (''source'', VStr ''platform'')]"

definition approve :: StatusUpdateInput where
  "approve = \<lparr>action = ''Approve'', data = None\<rparr>"

definition reject :: StatusUpdateInput where
  "reject = \<lparr>action = ''Reject'', data = None\<rparr>"

definition modify :: "rat \<Rightarrow> string option \<Rightarrow> StatusUpdateInput" where
  "modify amount note =
     \<lparr>action = ''Modify'', data = Some \<lparr>offer_amount_in = Some amount, lender_note_in = note\<rparr>\<rparr>"

definition borrower1 :: Borrower where
  "borrower1 = \<lparr>name = ''Asha'', mobile = ''9000000001'', city = ''Pune''\<rparr>"

definition raj :: Lender where
  "raj = \<lparr>lender_name = ''Raj'', lender_mobile = None, company = None\<rparr>"

definition raj_blank :: Lender where
  "raj_blank = \<lparr>lender_name = ''Raj'', lender_mobile = None, company = Some []\<rparr>"

definition platform_input :: CreateLoanInput where
  "platform_input = \<lparr>borrower_in = borrower1, asset_in = tablet, media_in = []\<rparr>"

definition byob_input :: "Lender \<Rightarrow> BYOBInput" where
  "byob_input l = \<lparr>lender_by = l, borrower_by = borrower1, asset_by = tablet\<rparr>"

text \<open>The store after a creation request: unchanged when the request failed.\<close>

definition stored_by :: "store \<Rightarrow> error + (store \<times> created) \<Rightarrow> store" where
  "stored_by db r = (case r of Inl e \<Rightarrow> db | Inr x \<Rightarrow> fst x)"

section \<open>Properties of the rounding\<close>

lemma floor_numeral_div: "\<lfloor>numeral a / numeral b :: rat\<rfloor> = numeral a div numeral b"
  using floor_divide_of_int_eq [of "numeral a" "numeral b", where ?'a = rat] by simp

lemma py_round_of_int: "py_round (of_int n) = of_int n"
  by (simp add: py_round_def)





lemma two_powi_mono: "a \<le> b \<Longrightarrow> (2::rat) powi a \<le> 2 powi b"
  by (rule power_int_increasing) simp_all

lemma two_powi_less_cancel: "(2::rat) powi a < 2 powi b \<Longrightarrow> a < b"
  using two_powi_mono [of b a] by (cases "a < b") auto

lemma find_exp_lower: "2 powi lo \<le> x \<Longrightarrow> 2 powi (find_exp n x lo) \<le> x"
  by (induction n arbitrary: lo) simp_all

lemma find_exp_upper: "x < 2 powi (lo + 2 ^ n) \<Longrightarrow> x < 2 powi (find_exp n x lo + 1)"
proof (induction n arbitrary: lo)
  case 0
  then show ?case by simp
next
  case (Suc n)
  show ?case
  proof (cases "2 powi (lo + 2 ^ n) \<le> x")
    case True
    from Suc.prems have "x < 2 powi ((lo + 2 ^ n) + 2 ^ n)"
      by (simp add: algebra_simps)
    from Suc.IH [OF this] True show ?thesis by simp
  next
    case False
    then have "x < 2 powi (lo + 2 ^ n)" by simp
    from Suc.IH [OF this] False show ?thesis by simp
  qed
qed

lemma find_exp_ge_lo: "lo \<le> find_exp n x lo"
proof (induction n arbitrary: lo)
  case 0
  show ?case by simp
next
  case (Suc n)
  have "lo \<le> find_exp n x lo" "lo + 2 ^ n \<le> find_exp n x (lo + 2 ^ n)"
    by (rule Suc.IH)+
  moreover have "(0::int) < 2 ^ n" by simp
  ultimately show ?case by (simp del: zero_less_power)
qed

lemma find_exp_ge:
  "2 powi m \<le> x \<Longrightarrow> lo \<le> m \<Longrightarrow> m < lo + 2 ^ n \<Longrightarrow> m \<le> find_exp n x lo"
proof (induction n arbitrary: lo)
  case 0
  then show ?case by simp
next
  case (Suc n)
  show ?case
  proof (cases "2 powi (lo + 2 ^ n) \<le> x")
    case True
    note t = True
    show ?thesis
    proof (cases "lo + 2 ^ n \<le> m")
      case True
      from Suc.prems have "m < (lo + 2 ^ n) + 2 ^ n" by simp
      from Suc.IH [OF Suc.prems(1) True this] t show ?thesis by simp
    next
      case False
      have "lo + 2 ^ n \<le> find_exp n x (lo + 2 ^ n)"
        by (rule find_exp_ge_lo)
      with False t show ?thesis by simp
    qed
  next
    case False
    then have "2 powi m < (2::rat) powi (lo + 2 ^ n)"
      using Suc.prems(1) by simp
    then have "m < lo + 2 ^ n" by (rule two_powi_less_cancel)
    from Suc.IH [OF Suc.prems(1) Suc.prems(2) this] False show ?thesis by simp
  qed
qed

lemma expo_lower: "2 powi (- 2048) \<le> x \<Longrightarrow> 2 powi (expo x) \<le> x"
  unfolding expo_def by (rule find_exp_lower)

lemma expo_upper: "x < 2 powi 2048 \<Longrightarrow> x < 2 powi (expo x + 1)"
  unfolding expo_def using find_exp_upper [of x "- 2048" 12] by simp

lemma expo_ge: "2 powi m \<le> x \<Longrightarrow> - 2048 \<le> m \<Longrightarrow> m < 2048 \<Longrightarrow> m \<le> expo x"
  unfolding expo_def using find_exp_ge [of m x "- 2048" 12] by simp

lemma expo_unique:
  assumes "2 powi e \<le> x" and "x < 2 powi (e + 1)" and "- 2048 \<le> e" and "e < 2047"
  shows "expo x = e"
proof -
  have "2 powi (- 2048) \<le> (2::rat) powi e"
    using assms(3) by (rule two_powi_mono)
  with assms(1) have "2 powi (expo x) \<le> x"
    by (intro expo_lower) simp
  with assms(2) have "(2::rat) powi (expo x) < 2 powi (e + 1)" by simp
  then have a: "expo x < e + 1" by (rule two_powi_less_cancel)
  have "e \<le> expo x"
    using assms by (intro expo_ge) simp_all
  with a show ?thesis by simp
qed

lemma fl_eval:
  assumes "2 powi e \<le> x" and "x < 2 powi (e + 1)" and "- 1022 \<le> e" and "e < 2047"
  shows "fl x = 2 powi (e - 52) * py_round (x / 2 powi (e - 52))"
proof -
  have "0 < (2::rat) powi e" by simp
  with assms(1) have pos: "0 < x" by linarith
  have "expo x = e"
    using assms by (intro expo_unique) simp_all
  moreover have "max (e - 52) (- 1074) = e - 52"
    using assms(3) by simp
  moreover have "\<bar>x\<bar> = x" "sgn x = 1" "x \<noteq> 0"
    using pos by simp_all
  ultimately show ?thesis
    unfolding fl_def Let_def by (simp only: if_False mult_1)
qed

lemma two_powi_nat: "0 \<le> n \<Longrightarrow> (2::rat) powi n = of_int (2 ^ nat n)"
  by (simp add: power_int_def)

lemma fl_pos_unfold:
  assumes "0 < x"
  shows "fl x = 2 powi (max (expo x - 52) (- 1074))
                * py_round (x / 2 powi (max (expo x - 52) (- 1074)))"
proof -
  have "\<bar>x\<bar> = x" "sgn x = 1" "x \<noteq> 0"
    using assms by simp_all
  then show ?thesis
    unfolding fl_def Let_def by (simp only: if_False mult_1)
qed

lemma fl_small_int:
  assumes "0 \<le> k" and "k < 2 ^ 53"
  shows "fl (of_int k) = of_int k"
proof (cases "k = 0")
  case True
  then show ?thesis by (simp add: fl_def)
next
  case False
  define x :: rat where "x = of_int k"
  define e where "e = expo x"
  from False assms(1) have k1: "1 \<le> k" by simp
  then have x1: "1 \<le> x" by (simp add: x_def)
  have xu: "x < 2 ^ 53"
    using assms(2) unfolding x_def by (metis of_int_less_iff of_int_numeral of_int_power)
  have "(2::rat) powi (- 2048) \<le> 2 powi 0"
    by (rule two_powi_mono) simp
  with x1 have lo: "2 powi e \<le> x"
    unfolding e_def by (intro expo_lower) simp
  have "(2::rat) ^ 53 \<le> 2 powi 2048"
    using two_powi_mono [of 53 2048] by simp
  with xu have up: "x < 2 powi (e + 1)"
    unfolding e_def by (intro expo_upper) simp
  from x1 up have "(2::rat) powi 0 < 2 powi (e + 1)" by simp
  then have e0: "0 \<le> e" using two_powi_less_cancel [of 0 "e + 1"] by simp
  from lo xu have "(2::rat) powi e < 2 powi 53" by simp
  then have e52: "e \<le> 52" using two_powi_less_cancel [of e 53] by simp
  have m: "max (e - 52) (- 1074) = e - 52" using e0 by simp
  have q: "(2::rat) powi (e - 52) * 2 powi (52 - e) = 1"
    using power_int_add [of "2::rat" "e - 52" "52 - e"] by simp
  have "x / 2 powi (e - 52) = x * 2 powi (52 - e)"
    using q by (simp add: field_simps)
  also have "\<dots> = of_int (k * 2 ^ nat (52 - e))"
    using e52 by (simp add: x_def two_powi_nat)
  finally have a: "x / 2 powi (e - 52) = of_int (k * 2 ^ nat (52 - e))" .
  have "py_round (x / 2 powi (e - 52)) = x / 2 powi (e - 52)"
    by (simp only: a py_round_of_int)
  then have "fl x = 2 powi (e - 52) * (x / 2 powi (e - 52))"
    using fl_pos_unfold [of x] x1 m unfolding e_def by simp
  also have "\<dots> = x"
    by simp
  finally show ?thesis by (simp add: x_def)
qed



lemma float_of_int_small:
  "0 \<le> k \<Longrightarrow> k < 2 ^ 53 \<Longrightarrow> float_of_int k = Inr (of_int k)"
proof -
  assume k: "0 \<le> k" "k < 2 ^ 53"
  have "(of_int k :: rat) < 2 ^ 53"
    using k(2) by (metis of_int_less_iff of_int_numeral of_int_power)
  moreover have "(2::rat) ^ 53 \<le> 2 ^ 1024"
    by (rule power_increasing) simp_all
  ultimately have "\<bar>of_int k :: rat\<bar> < 2 ^ 1024"
    using k(1) by simp
  then show ?thesis
    using fl_small_int [OF k] by (simp add: float_of_int_def Let_def)
qed


lemma float_of_int_cases:
  "float_of_int k = Inl OverflowError \<or> (\<exists>w. float_of_int k = Inr w)"
  by (simp add: float_of_int_def Let_def)

section \<open>Properties of the valuation\<close>

text \<open>The float literals of \<open>estimate_value\<close>: 0.85, 0.9, 1.05, 0.6, 0.7, 0.75 and 0.5.\<close>

lemma fl_085: "fl (17 / 20) = 7656119366529843 / 9007199254740992"
  by (simp add: fl_eval [of "- 1"] py_round_def Let_def floor_numeral_div)

lemma fl_09: "fl (9 / 10) = 8106479329266893 / 9007199254740992"
  by (simp add: fl_eval [of "- 1"] py_round_def Let_def floor_numeral_div)

lemma fl_105: "fl (21 / 20) = 4728779608739021 / 4503599627370496"
  by (simp add: fl_eval [of 0] py_round_def Let_def floor_numeral_div)

lemma fl_06: "fl (3 / 5) = 5404319552844595 / 9007199254740992"
  by (simp add: fl_eval [of "- 1"] py_round_def Let_def floor_numeral_div)

lemma fl_07: "fl (7 / 10) = 3152519739159347 / 4503599627370496"
  by (simp add: fl_eval [of "- 1"] py_round_def Let_def floor_numeral_div)

lemma fl_075: "fl (3 / 4) = 3 / 4"
  by (simp add: fl_eval [of "- 1"] py_round_def Let_def floor_numeral_div)

lemma fl_05: "fl (1 / 2) = 1 / 2"
  by (simp add: fl_eval [of "- 1"] py_round_def Let_def floor_numeral_div)

lemmas fl_literals = fl_085 fl_09 fl_105 fl_06 fl_07 fl_075 fl_05



lemma estimated_raw_floor: "5000 \<le> estimated_raw v c"
  by (simp add: estimated_raw_def)


lemma normalize_subtype_known:
  "normalize_subtype vehicle s \<in> {''2-wheeler'', ''3-wheeler'', ''4-wheeler''}"
  "normalize_subtype electronics s \<in> {''laptop'', ''mobile'', ''other''}"
  by (simp_all add: normalize_subtype_def Let_def)

lemma base_lookup:
  "getitem base_map c = Inr row \<Longrightarrow>
   getitem row (normalize_subtype c s) = Inr (base_value c (normalize_subtype c s))"
  using normalize_subtype_known [of s]
  by (cases c) (auto simp add: getitem_def base_map_def base_value_def)

lemma base_row: "\<exists>row. getitem base_map c = Inr row"
  by (cases c) (simp_all add: getitem_def base_map_def)

lemma base_value_range: "0 \<le> base_value c k \<and> base_value c k < 2 ^ 53"
  by (simp add: base_value_def)

lemma base_value_float: "float_of_int (base_value c k) = Inr (of_int (base_value c k))"
  using base_value_range [of c k] by (intro float_of_int_small) simp_all

lemma estimate_value_eq:
  "estimate_value pw now_year a =
     (case depreciated pw (category a)
             (base_value (category a) (normalize_subtype (category a) (subtype a)))
             (asset_age now_year a) of
        Inl e \<Rightarrow> Inl e
      | Inr v \<Rightarrow>
         Inr \<lparr>estimated_value = py_round (estimated_raw v (condition a)),
              suggested_loan =
                py_round (fl (estimated_raw v (condition a) * ltv_policy (category a))),
              ltv = ltv_policy (category a)\<rparr>)"
proof -
  obtain row where r: "getitem base_map (category a) = Inr row"
    using base_row by blast
  from base_lookup [OF r, of "subtype a"] r show ?thesis
    by (simp add: estimate_value_def Let_def split: sum.splits)
qed

lemma depreciated_overflow:
  "float_of_int (pow_exponent c age) = Inl OverflowError \<Longrightarrow>
   depreciated pw c (base_value c k) age = Inl OverflowError"
  by (simp add: depreciated_def float_pow_def base_value_float Let_def)

lemma depreciated_returns:
  "float_of_int (pow_exponent c age) = Inr w \<Longrightarrow>
   \<exists>v. depreciated pw c (base_value c k) age = Inr v"
  by (simp add: depreciated_def float_pow_def base_value_float Let_def)

lemma estimate_overflow:
  assumes "float_of_int (pow_exponent (category a) (asset_age now_year a)) = Inl OverflowError"
  shows "estimate_value pw now_year a = Inl OverflowError"
  using depreciated_overflow [OF assms] by (simp add: estimate_value_eq)


text \<open>The products and powers of the two scenarios, rounded to doubles.\<close>

lemma scooter_first: "fl (4785074604081151875 / 70368744177664) = 68000"
  by (simp add: fl_eval [of 16] py_round_def Let_def floor_numeral_div)

lemma scooter_power: "fl (532717346807114153114247391023933437595563423957 / 730750818665451459101842416358141509827966271488) = 820781032088273 / 1125899906842624"
  by (simp add: fl_eval [of "- 1"] py_round_def Let_def floor_numeral_div)

lemma scooter_value: "fl (1744159693187580125 / 35184372088832) = 6813123801513985 / 137438953472"
  by (simp add: fl_eval [of 15] py_round_def Let_def floor_numeral_div)

lemma scooter_estimated: "fl (32217760904413813359736546708685 / 618970019642690137449562112) = 7153779991589685 / 137438953472"
  by (simp add: fl_eval [of 15] py_round_def Let_def floor_numeral_div)

lemma scooter_loan: "fl (38661313085296577019017810002575 / 1237940039285380274899124224) = 4292267994953811 / 137438953472"
  by (simp add: fl_eval [of 14] py_round_def Let_def floor_numeral_div)

lemma scooter_claimed: "fl (281300237045114014345 / 9007199254740992) = 4292300980302643 / 137438953472"
  by (simp add: fl_eval [of 14] py_round_def Let_def floor_numeral_div)

lemma tablet_first: "fl (1970324836974591875 / 140737488355328) = 14000"
  by (simp add: fl_eval [of 13] py_round_def Let_def floor_numeral_div)

lemma tablet_power: "fl (81 / 256) = 81 / 256"
  by (simp add: fl_eval [of "- 2"] py_round_def Let_def floor_numeral_div)

lemma tablet_value: "fl (70875 / 16) = 70875 / 16"
  by (simp add: fl_eval [of 12] py_round_def Let_def floor_numeral_div)

lemma tablet_loan: "fl (2500) = 2500"
  by (simp add: fl_eval [of 11] py_round_def Let_def floor_numeral_div)

lemma py_round_eval:
  "py_round (7153779991589685 / 137438953472) = 52051"
  "py_round (4292267994953811 / 137438953472) = 31230"
  "py_round (4292300980302643 / 137438953472) = 31231"
  "py_round 5000 = 5000"
  "py_round 2500 = 2500"
  by (simp_all add: py_round_def Let_def floor_numeral_div)

lemma small_ints:
  "float_of_int 80000 = Inr 80000" "float_of_int 20000 = Inr 20000"
  "float_of_int 3 = Inr 3" "float_of_int 4 = Inr 4"
  using float_of_int_small [of 80000] float_of_int_small [of 20000]
    float_of_int_small [of 3] float_of_int_small [of 4]
  by simp_all

lemma scooter_depreciated:
  "depreciated pow_nearest vehicle 80000 4 = Inr (6813123801513985 / 137438953472)"
  by (simp add: depreciated_def float_pow_def pow_exponent_def pow_nearest_def small_ints
      fl_literals power_divide scooter_first scooter_power scooter_value)

lemma tablet_depreciated:
  "depreciated pow_nearest electronics 20000 4 = Inr (70875 / 16)"
  by (simp add: depreciated_def float_pow_def pow_exponent_def pow_nearest_def small_ints
      fl_literals power_divide tablet_first tablet_power tablet_value)

lemma scooter_estimate:
  "estimate_value pow_nearest 2024 scooter =
     Inr \<lparr>estimated_value = 52051, suggested_loan = 31230,
          ltv = 5404319552844595 / 9007199254740992\<rparr>"
proof -
  have n: "normalize_subtype vehicle ''2-Wheeler'' = ''2-wheeler''"
    by (simp add: normalize_subtype_def lower_def lower_char_def Let_def)
  have a: "asset_age 2024 scooter = 4"
    by (simp add: asset_age_def year_or_default_def scooter_def)
  have r: "estimated_raw (6813123801513985 / 137438953472) (Some excellent)
             = 7153779991589685 / 137438953472"
    by (simp add: estimated_raw_def condition_factor_def condition_map_def fl_literals
        scooter_estimated)
  have f: "category scooter = vehicle" "subtype scooter = ''2-Wheeler''"
    "condition scooter = Some excellent"
    by (simp_all add: scooter_def)
  show ?thesis
    unfolding estimate_value_eq
    by (simp add: f n a base_value_def scooter_depreciated r ltv_policy_def
        fl_literals scooter_loan py_round_eval)
qed

lemma tablet_estimate:
  "estimate_value pow_nearest 2024 tablet =
     Inr \<lparr>estimated_value = 5000, suggested_loan = 2500, ltv = 1 / 2\<rparr>"
proof -
  have n: "normalize_subtype electronics ''tablet'' = ''other''"
    by (simp add: normalize_subtype_def lower_def lower_char_def Let_def)
  have a: "asset_age 2024 tablet = 4"
    by (simp add: asset_age_def year_or_default_def tablet_def)
  have r: "estimated_raw (70875 / 16) (Some good) = 5000"
    by (simp add: estimated_raw_def condition_factor_def condition_map_def tablet_value)
  have f: "category tablet = electronics" "subtype tablet = ''tablet''"
    "condition tablet = Some good"
    by (simp_all add: tablet_def)
  show ?thesis
    unfolding estimate_value_eq
    by (simp add: f n a base_value_def tablet_depreciated r ltv_policy_def
        fl_literals tablet_loan py_round_eval)
qed

section \<open>Claims about the valuation\<close>

text \<open>
  C1 (as the code has it). Unless the conversion of the exponent raises \<open>OverflowError\<close>,
  the suggested loan is rounded from the floored value \<open>estimated\<close> before that value is
  itself rounded: \<open>suggested_loan = round(estimated * ltv)\<close> with the unrounded local
  \<open>estimated\<close>, which is at least 5000, and \<open>estimated_value = round(estimated)\<close> apart.
\<close>

theorem suggested_loan_from_unrounded:
  "estimate_value pw now_year a = Inl OverflowError
   \<or> (\<exists>v. depreciated pw (category a)
              (base_value (category a) (normalize_subtype (category a) (subtype a)))
              (asset_age now_year a) = Inr v
          \<and> 5000 \<le> estimated_raw v (condition a)
          \<and> estimate_value pw now_year a =
              Inr \<lparr>estimated_value = py_round (estimated_raw v (condition a)),
                   suggested_loan =
                     py_round (fl (estimated_raw v (condition a) * ltv_policy (category a))),
                   ltv = ltv_policy (category a)\<rparr>)"
proof (cases "float_of_int (pow_exponent (category a) (asset_age now_year a))")
  case (Inl e)
  with float_of_int_cases [of "pow_exponent (category a) (asset_age now_year a)"]
  have "float_of_int (pow_exponent (category a) (asset_age now_year a)) = Inl OverflowError"
    by simp
  then show ?thesis
    by (simp add: estimate_overflow)
next
  case (Inr w)
  from depreciated_returns [OF Inr] obtain v where
    "depreciated pw (category a)
       (base_value (category a) (normalize_subtype (category a) (subtype a)))
       (asset_age now_year a) = Inr v"
    by blast
  then show ?thesis
    by (simp add: estimate_value_eq estimated_raw_floor)
qed

text \<open>
  C1 as stated fails: for a two-wheeler of 2020 in excellent condition, valued in 2024, the
  floored value is the double 52050.60000000001; the code returns the loan
  \<open>round(31230.360000000008) = 31230\<close>, while rounding first gives
  \<open>round(52051 * 0.6) = round(31230.6) = 31231\<close>.
\<close>

theorem suggested_loan_rounding_order_counterexample:
  "estimate_value pow_nearest 2024 scooter =
     Inr \<lparr>estimated_value = 52051, suggested_loan = 31230,
          ltv = 5404319552844595 / 9007199254740992\<rparr>
   \<and> py_round (fl (52051 * (5404319552844595 / 9007199254740992))) = 31231"
  by (simp add: scooter_estimate scooter_claimed py_round_eval)

text \<open>
  C3 (as the code has it). Electronics, subtype \<open>tablet\<close>, no year, condition good, valued
  in 2024: the key is \<open>other\<close> with base 20000 and the age is 4, but the depreciated value
  \<open>20000 * 0.70 * 0.75^4 = 4429.6875\<close> lies under the floor, so the estimate is 5000, the
  suggested loan 2500 and the ratio 0.5.
\<close>

theorem tablet_scenario:
  "normalize_subtype electronics (subtype tablet) = ''other''
   \<and> base_value electronics ''other'' = 20000
   \<and> asset_age 2024 tablet = 4
   \<and> depreciated pow_nearest electronics 20000 4 = Inr (70875 / 16)
   \<and> estimate_value pow_nearest 2024 tablet =
       Inr \<lparr>estimated_value = 5000, suggested_loan = 2500, ltv = 1 / 2\<rparr>"
proof -
  have "normalize_subtype electronics (subtype tablet) = ''other''"
    by (simp add: tablet_def normalize_subtype_def lower_def lower_char_def Let_def)
  moreover have "base_value electronics ''other'' = 20000"
    by (simp add: base_value_def)
  moreover have "asset_age 2024 tablet = 4"
    by (simp add: asset_age_def year_or_default_def tablet_def)
  ultimately show ?thesis
    using tablet_depreciated tablet_estimate by simp
qed

text \<open>
  C3 as stated fails: the returned values are 5000 and 2500, more than 500 and 250 away
  from the 5537 and 2769 of the scenario.
\<close>

theorem tablet_scenario_counterexample:
  "estimate_value pow_nearest 2024 tablet =
     Inr \<lparr>estimated_value = 5000, suggested_loan = 2500, ltv = 1 / 2\<rparr>
   \<and> \<bar>5000 - 5537\<bar> > (500 :: rat) \<and> \<bar>2500 - 2769\<bar> > (250 :: rat)"
  using tablet_estimate by simp




text \<open>
  C10. A year equal to 0 is treated as an absent year: the estimate is the one of the same
  asset without a year, and the age is counted from the default year 2020.
\<close>

theorem year_zero_as_absent:
  "estimate_value pw now_year (a\<lparr>year := Some 0\<rparr>)
     = estimate_value pw now_year (a\<lparr>year := None\<rparr>)
   \<and> asset_age now_year (a\<lparr>year := Some 0\<rparr>) = max 0 (now_year - 2020)"
  by (simp add: estimate_value_eq asset_age_def year_or_default_def cong: sum.case_cong)

section \<open>Properties of the store and of the status update\<close>

lemma update_nonempty: "AList.update k v d \<noteq> []"
  by (cases d) (auto simp add: AList.update.simps)

lemma set_fields_nonempty: "d \<noteq> [] \<Longrightarrow> set_fields u d \<noteq> []"
  unfolding set_fields_def
  by (induction u arbitrary: d) (simp_all add: update_nonempty)

lemma map_of_set_fields_other:
  "f \<notin> fst ` set u \<Longrightarrow> map_of (set_fields u d) f = map_of d f"
  unfolding set_fields_def
  by (induction u arbitrary: d) (auto simp add: update_conv')

lemma has_id_set_fields:
  "''_id'' \<notin> fst ` set u \<Longrightarrow> has_id oid (set_fields u d) = has_id oid d"
  by (simp add: has_id_def map_of_set_fields_other)

lemma find_update_first_same:
  "find P ds = Some d \<Longrightarrow> P (f d) \<Longrightarrow> find P (update_first P f ds) = Some (f d)"
  by (induction ds) (auto split: if_splits)

lemma find_update_first_other:
  assumes "\<And>d. P d \<Longrightarrow> \<not> Q d" and "\<And>d. P d \<Longrightarrow> \<not> Q (f d)"
  shows "find Q (update_first P f ds) = find Q ds"
  using assms by (induction ds) auto

lemma length_update_first: "length (update_first P f ds) = length ds"
  by (induction ds) auto

lemma find_one_has_id: "find_one db oid = Some d \<Longrightarrow> has_id oid d"
  by (auto simp add: find_one_def find_Some_iff)

lemma find_one_nonempty: "find_one db oid = Some d \<Longrightarrow> d \<noteq> []"
  using find_one_has_id [of db oid d] by (auto simp add: has_id_def)

lemma find_one_update_same:
  assumes "find_one db oid = Some d" and "''_id'' \<notin> fst ` set u"
  shows "find_one (update_one db oid u) oid = Some (set_fields u d)"
proof -
  have "has_id oid (set_fields u d)"
    using find_one_has_id [OF assms(1)] assms(2) by (simp add: has_id_set_fields)
  with assms(1) show ?thesis
    unfolding find_one_def update_one_def by (intro find_update_first_same)
qed

lemma find_one_update_other:
  assumes "oid' \<noteq> oid" and "''_id'' \<notin> fst ` set u"
  shows "find_one (update_one db oid u) oid' = find_one db oid'"
  unfolding find_one_def update_one_def
proof (rule find_update_first_other)
  fix d assume "has_id oid d"
  with assms(1) show "\<not> has_id oid' d"
    by (auto simp add: has_id_def)
  from \<open>has_id oid d\<close> assms show "\<not> has_id oid' (set_fields u d)"
    by (auto simp add: has_id_set_fields has_id_def map_of_set_fields_other)
qed

lemma find_one_append_new:
  "find_one db oid = None \<Longrightarrow> has_id oid d \<Longrightarrow> find_one (db @ [d]) oid = Some d"
  unfolding find_one_def by (induction db) (auto split: if_splits)

lemma compute_update_cases:
  "compute_update p = Inr [(''status'', VStr ''Approved'')] \<and> action p = ''Approve''
     \<and> \<not> modifies p \<and> \<not> modifies_note p
   \<or> compute_update p = Inr [(''status'', VStr ''Rejected'')] \<and> action p = ''Reject''
     \<and> \<not> modifies p \<and> \<not> modifies_note p
   \<or> compute_update p = Inl (HTTPException 400 ''offer_amount required for Modify'')
       \<and> action p = ''Modify'' \<and> \<not> modifies p \<and> \<not> modifies_note p
   \<or> (\<exists>m amount. data p = Some m \<and> offer_amount_in m = Some amount \<and> action p = ''Modify''
        \<and> truthy (lender_note_in m) \<and> modifies p \<and> modifies_note p
        \<and> compute_update p = Inr [(''status'', VStr ''Modified''), (''offer_amount'', VNum amount),
                                 (''lender_note'', opt_str (lender_note_in m))])
   \<or> (\<exists>m amount. data p = Some m \<and> offer_amount_in m = Some amount \<and> action p = ''Modify''
        \<and> \<not> truthy (lender_note_in m) \<and> modifies p \<and> \<not> modifies_note p
        \<and> compute_update p = Inr [(''status'', VStr ''Modified''), (''offer_amount'', VNum amount)])
   \<or> compute_update p = Inr [] \<and> action p \<notin> {''Approve'', ''Reject'', ''Modify''}
     \<and> \<not> modifies p \<and> \<not> modifies_note p"
  by (auto simp add: compute_update_def modifies_def modifies_note_def split: option.splits)

lemma compute_update_keys:
  "compute_update p = Inr u \<Longrightarrow> fst ` set u \<subseteq> {''status'', ''offer_amount'', ''lender_note''}"
  using compute_update_cases [of p] by auto

lemma compute_update_no_id: "compute_update p = Inr u \<Longrightarrow> ''_id'' \<notin> fst ` set u"
  using compute_update_keys [of p u] by auto

lemma compute_update_nonempty:
  "action p \<in> {''Approve'', ''Reject'', ''Modify''} \<Longrightarrow> compute_update p \<noteq> Inr []"
  by (auto simp add: compute_update_def split: option.splits)

lemma update_status_ok:
  assumes "ObjectId r = Inr oid" and "find_one db oid = Some d"
    and "compute_update p = Inr u" and "u \<noteq> []"
  shows "update_status db r p =
           Inr (update_one db oid u, serialize_doc (Some (set_fields u d)))"
    and "find_one (update_one db oid u) oid = Some (set_fields u d)"
proof -
  show f: "find_one (update_one db oid u) oid = Some (set_fields u d)"
    using assms(2) compute_update_no_id [OF assms(3)] by (rule find_one_update_same)
  show "update_status db r p =
           Inr (update_one db oid u, serialize_doc (Some (set_fields u d)))"
    using assms f find_one_nonempty [OF assms(2)]
    by (simp add: update_status_def Let_def)
qed

lemma update_status_err:
  assumes "ObjectId r = Inr oid" and "find_one db oid = Some d"
    and "compute_update p = Inl e"
  shows "update_status db r p = Inl e"
  using assms find_one_nonempty [OF assms(2)] by (simp add: update_status_def)

lemma update_status_empty:
  assumes "ObjectId r = Inr oid" and "find_one db oid = Some d"
    and "compute_update p = Inr []"
  shows "update_status db r p = Inl (HTTPException 400 ''No update provided'')"
  using assms find_one_nonempty [OF assms(2)] by (simp add: update_status_def)

lemma update_status_InrD:
  assumes "update_status db r p = Inr (db', resp)"
  shows "\<exists>oid d u. ObjectId r = Inr oid \<and> find_one db oid = Some d
           \<and> compute_update p = Inr u \<and> u \<noteq> []
           \<and> db' = update_one db oid u
           \<and> find_one db' oid = Some (set_fields u d)"
proof -
  from assms obtain oid where o: "ObjectId r = Inr oid"
    by (auto simp add: update_status_def split: sum.splits)
  with assms obtain d where d: "find_one db oid = Some d"
    by (auto simp add: update_status_def split: option.splits)
  with o assms obtain u where u: "compute_update p = Inr u" "u \<noteq> []"
    by (auto simp add: update_status_def split: sum.splits if_splits)
  from update_status_ok [OF o d u] assms show ?thesis
    using o d u by auto
qed

lemma field_found: "find_one db oid = Some d \<Longrightarrow> field db oid f = map_of d f"
  by (simp add: field_def)

lemma is_set_found:
  "find_one db oid = Some d \<Longrightarrow>
   is_set db oid f = (case map_of d f of None \<Rightarrow> False | Some v \<Rightarrow> v \<noteq> VNull)"
  by (simp add: is_set_def field_def)

lemma truthy_opt_str: "truthy n \<Longrightarrow> opt_str n \<noteq> VNull"
  by (cases n) (simp_all add: truthy_def opt_str_def)

lemma set_fields_1: "set_fields [(k, v)] d = AList.update k v d"
  by (simp add: set_fields_def)

lemma set_fields_2: "set_fields [(k, v), (k', v')] d = AList.update k' v' (AList.update k v d)"
  by (simp add: set_fields_def)

lemma set_fields_3:
  "set_fields [(k, v), (k', v'), (k'', v'')] d
     = AList.update k'' v'' (AList.update k' v' (AList.update k v d))"
  by (simp add: set_fields_def)

lemmas set_fields_simps = set_fields_1 set_fields_2 set_fields_3

text \<open>One status update: where it leaves the request, and which of the two fields it sets.\<close>

lemma step_sets:
  assumes "ObjectId r = Inr oid" and "find_one db oid = Some d"
  shows "\<exists>d'. find_one (case update_status db r p of Inl e \<Rightarrow> db | Inr x \<Rightarrow> fst x) oid = Some d'
          \<and> (is_set (case update_status db r p of Inl e \<Rightarrow> db | Inr x \<Rightarrow> fst x) oid ''offer_amount''
               = (is_set db oid ''offer_amount'' \<or> modifies p))
          \<and> (is_set (case update_status db r p of Inl e \<Rightarrow> db | Inr x \<Rightarrow> fst x) oid ''lender_note''
               = (is_set db oid ''lender_note'' \<or> modifies_note p))"
proof -
  note ok = update_status_ok [OF assms]
  note er = update_status_err [OF assms]
  note em = update_status_empty [OF assms]
  note s = is_set_found [OF assms(2)]
  from compute_update_cases [of p] show ?thesis
  proof (elim disjE exE conjE, goal_cases)
    case 1
    from ok [OF 1(1)] 1(3,4) show ?case
      by (simp add: is_set_found s set_fields_simps update_conv')
  next
    case 2
    from ok [OF 2(1)] 2(3,4) show ?case
      by (simp add: is_set_found s set_fields_simps update_conv')
  next
    case 3
    from er [OF 3(1)] 3(3,4) assms(2) show ?case
      by simp
  next
    case (4 m amount)
    from ok [OF 4(7)] 4(4,5,6) show ?case
      by (simp add: is_set_found s set_fields_simps update_conv' truthy_opt_str)
  next
    case (5 m amount)
    from ok [OF 5(7)] 5(5,6) show ?case
      by (simp add: is_set_found s set_fields_simps update_conv')
  next
    case 6
    from em [OF 6(1)] 6(3,4) assms(2) show ?case
      by simp
  qed
qed

lemma apply_actions_sets:
  assumes "ObjectId r = Inr oid" and "find_one db oid = Some d"
  shows "is_set (apply_actions db r ps) oid ''offer_amount''
           = (is_set db oid ''offer_amount'' \<or> (\<exists>p\<in>set ps. modifies p))
       \<and> is_set (apply_actions db r ps) oid ''lender_note''
           = (is_set db oid ''lender_note'' \<or> (\<exists>p\<in>set ps. modifies_note p))"
  using assms(2)
proof (induction ps arbitrary: db d)
  case Nil
  show ?case by simp
next
  case (Cons p ps)
  let ?db = "case update_status db r p of Inl e \<Rightarrow> db | Inr x \<Rightarrow> fst x"
  from step_sets [OF assms(1) Cons.prems, of p] obtain d' where
    f: "find_one ?db oid = Some d'"
    and o: "is_set ?db oid ''offer_amount'' = (is_set db oid ''offer_amount'' \<or> modifies p)"
    and n: "is_set ?db oid ''lender_note'' = (is_set db oid ''lender_note'' \<or> modifies_note p)"
    by blast
  have a: "apply_actions db r (p # ps) = apply_actions ?db r ps"
    by (simp split: sum.splits)
  from Cons.IH [OF f] show ?case
    unfolding a o n by auto
qed

lemma sample_ids: "ObjectId rid1 = Inr oid1" "hex_of oid1 = rid1"
  by (simp_all add: ObjectId_def hex_of_def rid1_def oid1_def is_space_def hex_digit_def)

lemma sample_found: "find_one [pending_doc] oid1 = Some pending_doc"
  by (simp add: find_one_def has_id_def pending_doc_def)

lemma platform_doc:
  assumes "create_loan_request pw now_year db0 new_id cp = Inr (db, c)"
  shows "\<exists>d. db = db0 @ [d] \<and> has_id new_id d
           \<and> map_of d ''status'' = Some (VStr ''Pending'')
           \<and> map_of d ''offer_amount'' = Some VNull
           \<and> map_of d ''lender_note'' = Some VNull
           \<and> map_of d ''source'' = Some (VStr ''platform'')
           \<and> created_id c = hex_of new_id \<and> created_status c = ''Pending''"
  using assms
  by (auto simp add: create_loan_request_def create_document_def model_dump_def Let_def
      opt_num_def opt_str_def has_id_def update_conv' split: sum.splits)

lemma byob_doc:
  assumes "create_byob pw now_year db0 new_id bp = Inr (db, c)"
  shows "\<exists>d. db = db0 @ [d] \<and> has_id new_id d
           \<and> map_of d ''status'' = Some (VStr ''Pending'')
           \<and> map_of d ''offer_amount'' = Some VNull
           \<and> map_of d ''lender_note'' = Some VNull
           \<and> map_of d ''source'' = Some (VStr ''byob'')
           \<and> map_of d ''lender_id'' = Some (VStr (lender_ident (lender_by bp)))
           \<and> created_id c = hex_of new_id \<and> created_status c = ''Pending''"
  using assms
  by (auto simp add: create_byob_def create_document_def model_dump_def Let_def
      opt_num_def opt_str_def has_id_def update_conv' split: sum.splits)

lemma created_unset:
  assumes "create_loan_request pw now_year db0 new_id cp = Inr (db, c)
           \<or> create_byob pw now_year db0 new_id bp = Inr (db, c)"
    and "find_one db0 new_id = None"
  shows "\<exists>d. find_one db new_id = Some d
           \<and> \<not> is_set db new_id ''offer_amount'' \<and> \<not> is_set db new_id ''lender_note''
           \<and> field db new_id ''status'' = Some (VStr ''Pending'')"
proof -
  from assms(1) obtain d where d: "db = db0 @ [d]" "has_id new_id d"
    "map_of d ''status'' = Some (VStr ''Pending'')"
    "map_of d ''offer_amount'' = Some VNull" "map_of d ''lender_note'' = Some VNull"
    using platform_doc [of pw now_year db0 new_id cp db c]
      byob_doc [of pw now_year db0 new_id bp db c] by blast
  have "find_one db new_id = Some d"
    unfolding d(1) using assms(2) d(2) by (rule find_one_append_new)
  with d(3,4,5) show ?thesis
    by (simp add: is_set_found field_found)
qed

lemma sample_platform:
  "\<exists>db c. create_loan_request pow_nearest 2024 [] oid1 platform_input = Inr (db, c)"
  by (simp add: create_loan_request_def platform_input_def tablet_estimate Let_def)

lemma sample_byob:
  "\<exists>db c. create_byob pow_nearest 2024 [] oid1 (byob_input l) = Inr (db, c)"
  by (simp add: create_byob_def byob_input_def tablet_estimate Let_def)

section \<open>Claims about the loan requests\<close>

text \<open>
  C2 (as the code has it). On a request created by either endpoint under a fresh identity
  and then taken through any sequence of status updates, \<open>offer_amount\<close> is set if and only
  if one of the updates was a Modify carrying an offer, and \<open>lender_note\<close> is set if and
  only if one of them was a Modify carrying an offer and a note that is not empty. Both are
  absent on the freshly created request.
\<close>

theorem fields_set_iff_modified:
  assumes "create_loan_request pw now_year db0 new_id cp = Inr (db, c)
           \<or> create_byob pw now_year db0 new_id bp = Inr (db, c)"
    and "find_one db0 new_id = None"
    and "ObjectId req_id = Inr new_id"
  shows "is_set (apply_actions db req_id ps) new_id ''offer_amount'' = (\<exists>p\<in>set ps. modifies p)
       \<and> is_set (apply_actions db req_id ps) new_id ''lender_note''
           = (\<exists>p\<in>set ps. modifies_note p)
       \<and> \<not> is_set db new_id ''offer_amount'' \<and> \<not> is_set db new_id ''lender_note''"
proof -
  from created_unset [OF assms(1,2)] obtain d where
    d: "find_one db new_id = Some d" "\<not> is_set db new_id ''offer_amount''"
      "\<not> is_set db new_id ''lender_note''"
    by blast
  from apply_actions_sets [OF assms(3) d(1), of ps] d(2,3) show ?thesis
    by simp
qed

theorem fields_set_iff_modified_witness:
  "find_one [] oid1 = None \<and> ObjectId rid1 = Inr oid1
   \<and> \<not> is_set (apply_actions
        (stored_by [] (create_loan_request pow_nearest 2024 [] oid1 platform_input))
        rid1 [approve, reject]) oid1 ''offer_amount''
   \<and> is_set (apply_actions
        (stored_by [] (create_loan_request pow_nearest 2024 [] oid1 platform_input))
        rid1 [approve, modify 1500 (Some ''ok'')]) oid1 ''lender_note''"
proof -
  from sample_platform obtain db c where
    h: "create_loan_request pow_nearest 2024 [] oid1 platform_input = Inr (db, c)"
    by blast
  then have s: "stored_by [] (create_loan_request pow_nearest 2024 [] oid1 platform_input) = db"
    by (simp add: stored_by_def)
  have f: "find_one [] oid1 = None"
    by (simp add: find_one_def)
  have g: "create_loan_request pow_nearest 2024 [] oid1 platform_input = Inr (db, c)
           \<or> create_byob pow_nearest 2024 [] oid1 (byob_input raj) = Inr (db, c)"
    using h by simp
  from fields_set_iff_modified [OF g f sample_ids(1), of "[approve, reject]"]
    fields_set_iff_modified [OF g f sample_ids(1), of "[approve, modify 1500 (Some ''ok'')]"]
  show ?thesis
    unfolding s using f sample_ids(1)
    by (simp add: modifies_def modifies_note_def approve_def reject_def modify_def truthy_def)
qed

text \<open>
  C2 as stated fails: after a Modify that carries an offer and no note, the request has
  passed through a Modify transition and its \<open>offer_amount\<close> is set, but its
  \<open>lender_note\<close> is not.
\<close>

theorem fields_set_iff_modified_counterexample:
  "modifies (modify 1500 None)
   \<and> is_set (apply_actions
        (stored_by [] (create_loan_request pow_nearest 2024 [] oid1 platform_input))
        rid1 [modify 1500 None]) oid1 ''offer_amount''
   \<and> \<not> is_set (apply_actions
        (stored_by [] (create_loan_request pow_nearest 2024 [] oid1 platform_input))
        rid1 [modify 1500 None]) oid1 ''lender_note''"
proof -
  from sample_platform obtain db c where
    h: "create_loan_request pow_nearest 2024 [] oid1 platform_input = Inr (db, c)"
    by blast
  then have s: "stored_by [] (create_loan_request pow_nearest 2024 [] oid1 platform_input) = db"
    by (simp add: stored_by_def)
  have f: "find_one [] oid1 = None"
    by (simp add: find_one_def)
  from created_unset [OF disjI1 [OF h] f] obtain d where
    d: "find_one db oid1 = Some d" "\<not> is_set db oid1 ''offer_amount''"
      "\<not> is_set db oid1 ''lender_note''"
    by blast
  from apply_actions_sets [OF sample_ids(1) d(1), of "[modify 1500 None]"] d(2,3)
  show ?thesis
    unfolding s by (simp add: modifies_def modifies_note_def modify_def truthy_def)
qed

text \<open>
  C4. On an existing request, whatever its status, Approve, Reject and a Modify that carries
  an offer succeed and set the status. A second Approve on the approved request succeeds
  again and leaves every field, the status \<open>Approved\<close> among them, as it was.
\<close>

theorem transitions_unguarded:
  assumes "ObjectId req_id = Inr oid" and "find_one db oid = Some d"
  shows "(\<exists>db' r. update_status db req_id \<lparr>action = ''Approve'', data = x\<rparr> = Inr (db', r)
            \<and> field db' oid ''status'' = Some (VStr ''Approved'')
            \<and> (\<exists>db'' r'. update_status db' req_id \<lparr>action = ''Approve'', data = y\<rparr>
                            = Inr (db'', r')
                  \<and> (\<forall>f. field db'' oid f = field db' oid f)))
       \<and> (\<exists>db' r. update_status db req_id \<lparr>action = ''Reject'', data = x\<rparr> = Inr (db', r)
            \<and> field db' oid ''status'' = Some (VStr ''Rejected''))
       \<and> (\<exists>db' r. update_status db req_id
              \<lparr>action = ''Modify'',
               data = Some \<lparr>offer_amount_in = Some amount, lender_note_in = note\<rparr>\<rparr> = Inr (db', r)
            \<and> field db' oid ''status'' = Some (VStr ''Modified''))"
proof (intro conjI)
  let ?u = "[(''status'', VStr ''Approved'')]"
  let ?db = "update_one db oid ?u"
  have cu: "\<And>z. compute_update \<lparr>action = ''Approve'', data = z\<rparr> = Inr ?u"
    by (simp add: compute_update_def)
  note one = update_status_ok [OF assms cu [of x]]
  have f1: "find_one ?db oid = Some (set_fields ?u d)"
    using one(2) by simp
  note two = update_status_ok [OF assms(1) f1 cu [of y]]
  have "\<forall>f. field (update_one ?db oid ?u) oid f = field ?db oid f"
    using two(2) f1 by (simp add: field_found set_fields_simps update_conv')
  moreover have "field ?db oid ''status'' = Some (VStr ''Approved'')"
    using f1 by (simp add: field_found set_fields_simps update_conv')
  ultimately
  show "\<exists>db' r. update_status db req_id \<lparr>action = ''Approve'', data = x\<rparr> = Inr (db', r)
            \<and> field db' oid ''status'' = Some (VStr ''Approved'')
            \<and> (\<exists>db'' r'. update_status db' req_id \<lparr>action = ''Approve'', data = y\<rparr>
                            = Inr (db'', r')
                  \<and> (\<forall>f. field db'' oid f = field db' oid f))"
    using one(1) two(1) by blast
next
  have cu: "compute_update \<lparr>action = ''Reject'', data = x\<rparr> = Inr [(''status'', VStr ''Rejected'')]"
    by (simp add: compute_update_def)
  from update_status_ok [OF assms cu]
  show "\<exists>db' r. update_status db req_id \<lparr>action = ''Reject'', data = x\<rparr> = Inr (db', r)
            \<and> field db' oid ''status'' = Some (VStr ''Rejected'')"
    by (simp add: field_found set_fields_simps update_conv')
next
  let ?p = "\<lparr>action = ''Modify'',
               data = Some \<lparr>offer_amount_in = Some amount, lender_note_in = note\<rparr>\<rparr>"
  show "\<exists>db' r. update_status db req_id ?p = Inr (db', r)
            \<and> field db' oid ''status'' = Some (VStr ''Modified'')"
  proof (cases "truthy note")
    case True
    then have cu: "compute_update ?p = Inr [(''status'', VStr ''Modified''),
        (''offer_amount'', VNum amount), (''lender_note'', opt_str note)]"
      by (simp add: compute_update_def)
    from update_status_ok [OF assms cu] show ?thesis
      by (simp add: field_found set_fields_simps update_conv')
  next
    case False
    then have cu: "compute_update ?p = Inr [(''status'', VStr ''Modified''),
        (''offer_amount'', VNum amount)]"
      by (simp add: compute_update_def)
    from update_status_ok [OF assms cu] show ?thesis
      by (simp add: field_found set_fields_simps update_conv')
  qed
qed

theorem transitions_unguarded_witness:
  "ObjectId rid1 = Inr oid1 \<and> find_one [pending_doc] oid1 = Some pending_doc
   \<and> (\<exists>db' r. update_status [pending_doc] rid1 \<lparr>action = ''Approve'', data = None\<rparr>
                  = Inr (db', r)
          \<and> field db' oid1 ''status'' = Some (VStr ''Approved'')
          \<and> (\<exists>db'' r'. update_status db' rid1 \<lparr>action = ''Approve'', data = None\<rparr>
                          = Inr (db'', r')
                \<and> (\<forall>f. field db'' oid1 f = field db' oid1 f)))"
  using transitions_unguarded [OF sample_ids(1) sample_found, of None None 100 None]
    sample_ids(1) sample_found
  by blast


end
